theory Spec2Isabelle
  imports Main
begin

section \<open>The Windows plugin registration entry point of flutter_surrealdb_engine\<close>

text \<open>
  The source is one function, in
  \<^verbatim>\<open>packages/flutter_surrealdb_engine/windows/flutter_surrealdb_engine_plugin_c_api.cpp\<close>:

  \<^verbatim>\<open>
  void FlutterSurrealdbEnginePluginCApiRegisterWithRegistrar(
      FlutterDesktopPluginRegistrarRef registrar) {
    flutter_surrealdb_engine::FlutterSurrealdbEnginePlugin::RegisterWithRegistrar(
        flutter::PluginRegistrarManager::GetInstance()
            ->GetRegistrar<flutter::PluginRegistrarWindows>(registrar));
  }
  \<close>

  It makes three calls, in the order C++ evaluates them: the static accessor
  \<^verbatim>\<open>GetInstance()\<close>, the member function template \<^verbatim>\<open>GetRegistrar\<close> on the pointer
  that came back, and the plugin's static \<^verbatim>\<open>RegisterWithRegistrar\<close> on the result
  of the lookup. None of the three callees is part of the file: the manager belongs to
  the host toolkit and the plugin class to another translation unit. They are parameters
  of the model.
\<close>

subsection \<open>Pointers\<close>

text \<open>
  \<^verbatim>\<open>FlutterDesktopPluginRegistrarRef\<close> is a pointer to an opaque structure of the host;
  the manager and the typed registrar are reached through pointers as well. Only
  equality of pointers and the null pointer matter here.
\<close>

datatype pointer = nullptr | Addr nat

type_synonym FlutterDesktopPluginRegistrarRef = pointer

text \<open>
  A template argument is a type, chosen at compile time. The model passes it to the
  lookup as the name the source writes.
\<close>

type_synonym type_name = string

definition PluginRegistrarWindows :: type_name where
  "PluginRegistrarWindows = ''flutter::PluginRegistrarWindows''"

subsection \<open>Calls into code outside the file\<close>

text \<open>
  A C++ call returns a value, leaves by an exception, or does not come back (it loops,
  or ends the process). The callees mutate state of the host and of the plugin; \<open>'w\<close> is
  all of that state, \<open>'e\<close> is what an exception carries.
\<close>

datatype ('a, 'e, 'w) outcome = Returns 'a 'w | Throws 'e 'w | Diverges

record ('e, 'w) collaborators =
  GetInstance :: "'w \<Rightarrow> (pointer, 'e, 'w) outcome"
  GetRegistrar ::
    "pointer \<Rightarrow> type_name \<Rightarrow> FlutterDesktopPluginRegistrarRef \<Rightarrow> 'w \<Rightarrow> (pointer, 'e, 'w) outcome"
  RegisterWithRegistrar :: "pointer \<Rightarrow> 'w \<Rightarrow> (unit, 'e, 'w) outcome"

text \<open>
  \<open>GetRegistrar c this T registrar\<close> is \<^verbatim>\<open>this->GetRegistrar<T>(registrar)\<close>: the
  object pointer is an argument like the others, so a null \<open>this\<close> is the callee's
  matter.

  Every call is logged with its arguments and with what came back, so that claims about
  how many calls are made, in which order and with which arguments can be stated.
\<close>

datatype call =
    CallGetInstance
  | CallGetRegistrar pointer type_name FlutterDesktopPluginRegistrarRef
  | CallRegisterWithRegistrar pointer

datatype 'e response = RetPointer pointer | RetVoid | Raised 'e | NoReturn

type_synonym 'e event = "call \<times> 'e response"

type_synonym ('a, 'e, 'w) comp = "'w \<Rightarrow> 'e event list \<times> ('a, 'e, 'w) outcome"

definition response_of :: "('a \<Rightarrow> 'e response) \<Rightarrow> ('a, 'e, 'w) outcome \<Rightarrow> 'e response" where
  "response_of ret out =
     (case out of Returns a w' \<Rightarrow> ret a | Throws e w' \<Rightarrow> Raised e | Diverges \<Rightarrow> NoReturn)"

definition invoke ::
  "call \<Rightarrow> ('a \<Rightarrow> 'e response) \<Rightarrow> ('w \<Rightarrow> ('a, 'e, 'w) outcome) \<Rightarrow> ('a, 'e, 'w) comp" where
  "invoke cl ret f w = ([(cl, response_of ret (f w))], f w)"

text \<open>
  Sequencing as C++ has it: the second computation runs on the value and in the state
  the first one returned; an exception of the first, with no handler around it, leaves
  the whole; a first computation that does not come back is the end.
\<close>

definition seq :: "('a, 'e, 'w) comp \<Rightarrow> ('a \<Rightarrow> ('b, 'e, 'w) comp) \<Rightarrow> ('b, 'e, 'w) comp" where
  "seq m k w =
     (case m w of
        (t, Returns a w') \<Rightarrow> (case k a w' of (t', out) \<Rightarrow> (t @ t', out))
      | (t, Throws e w') \<Rightarrow> (t, Throws e w')
      | (t, Diverges) \<Rightarrow> (t, Diverges))"

subsection \<open>The entry point\<close>

definition FlutterSurrealdbEnginePluginCApiRegisterWithRegistrar ::
  "('e, 'w) collaborators \<Rightarrow> FlutterDesktopPluginRegistrarRef \<Rightarrow> (unit, 'e, 'w) comp" where
  "FlutterSurrealdbEnginePluginCApiRegisterWithRegistrar c registrar =
     seq (invoke CallGetInstance RetPointer (GetInstance c)) (\<lambda>manager.
     seq (invoke (CallGetRegistrar manager PluginRegistrarWindows registrar) RetPointer
            (GetRegistrar c manager PluginRegistrarWindows registrar)) (\<lambda>typed.
     invoke (CallRegisterWithRegistrar typed) (\<lambda>_. RetVoid)
       (RegisterWithRegistrar c typed)))"

text \<open>What one invocation did: the events, the calls, the answers, and how it ended.\<close>

definition trace_of ::
  "('e, 'w) collaborators \<Rightarrow> FlutterDesktopPluginRegistrarRef \<Rightarrow> 'w \<Rightarrow> 'e event list" where
  "trace_of c registrar w = fst (FlutterSurrealdbEnginePluginCApiRegisterWithRegistrar c registrar w)"

definition outcome_of ::
  "('e, 'w) collaborators \<Rightarrow> FlutterDesktopPluginRegistrarRef \<Rightarrow> 'w \<Rightarrow> (unit, 'e, 'w) outcome" where
  "outcome_of c registrar w = snd (FlutterSurrealdbEnginePluginCApiRegisterWithRegistrar c registrar w)"

definition calls_of ::
  "('e, 'w) collaborators \<Rightarrow> FlutterDesktopPluginRegistrarRef \<Rightarrow> 'w \<Rightarrow> call list" where
  "calls_of c registrar w = map fst (trace_of c registrar w)"

definition responses_of ::
  "('e, 'w) collaborators \<Rightarrow> FlutterDesktopPluginRegistrarRef \<Rightarrow> 'w \<Rightarrow> 'e response list" where
  "responses_of c registrar w = map snd (trace_of c registrar w)"

text \<open>How a call ended, without the state it left: what the caller sees of it.\<close>

definition completion :: "(unit, 'e, 'w) outcome \<Rightarrow> 'e response" where
  "completion out = response_of (\<lambda>_. RetVoid) out"

definition final_world :: "('a, 'e, 'w) outcome \<Rightarrow> 'w option" where
  "final_world out =
     (case out of Returns a w' \<Rightarrow> Some w' | Throws e w' \<Rightarrow> Some w' | Diverges \<Rightarrow> None)"

subsection \<open>What the callees are expected to do\<close>

text \<open>
  Modelled from the spec: the lookup of the registrar manager
  (\<^verbatim>\<open>flutter::PluginRegistrarManager::GetRegistrar\<close>, code of the host toolkit that is
  not in the file). The specification calls the manager the "facility that resolves a
  generic registrar handle into a platform-specific typed registrar instance" and speaks
  of "a non-null resolved typed registrar" for a valid handle: whenever the lookup of a
  non-null handle returns, what it returns is not null. Nothing is said of a null handle,
  of a lookup that throws, or of the state.
\<close>

definition resolves_to_registrar :: "('e, 'w) collaborators \<Rightarrow> bool" where
  "resolves_to_registrar c \<longleftrightarrow>
     (\<forall>this registrar w typed w'.
        registrar \<noteq> nullptr \<longrightarrow>
        GetRegistrar c this PluginRegistrarWindows registrar w = Returns typed w' \<longrightarrow>
        typed \<noteq> nullptr)"

text \<open>
  The callees leave an observation \<open>obs\<close> of the state as it was: whatever they are
  called with, and whether they return or throw.
\<close>

definition preserves :: "('w \<Rightarrow> 'a) \<Rightarrow> ('e, 'w) collaborators \<Rightarrow> bool" where
  "preserves obs c \<longleftrightarrow>
     (\<forall>w w'. final_world (GetInstance c w) = Some w' \<longrightarrow> obs w' = obs w) \<and>
     (\<forall>this T registrar w w'.
        final_world (GetRegistrar c this T registrar w) = Some w' \<longrightarrow> obs w' = obs w) \<and>
     (\<forall>typed w w'.
        final_world (RegisterWithRegistrar c typed w) = Some w' \<longrightarrow> obs w' = obs w)"

subsection \<open>Test doubles\<close>

text \<open>
  The end-to-end scenario of the specification: a mock registrar manager that resolves
  every handle to one stub registrar, and a stub plugin that records the registrars it
  was asked to register with. The state holds the recorded registrars and the work that
  was scheduled and has not run yet.
\<close>

record host_state =
  registered :: "pointer list"
  pending :: "string list"

definition fresh :: host_state where
  "fresh = \<lparr> registered = [], pending = [] \<rparr>"

definition mock_manager :: pointer where
  "mock_manager = Addr 1"

definition stub_registrar :: pointer where
  "stub_registrar = Addr 7"

definition mock :: "(string, host_state) collaborators" where
  "mock = \<lparr> GetInstance = (\<lambda>w. Returns mock_manager w),
            GetRegistrar = (\<lambda>this T registrar w. Returns stub_registrar w),
            RegisterWithRegistrar = (\<lambda>typed w.
              Returns () (w\<lparr>registered := typed # registered w\<rparr>)) \<rparr>"

text \<open>A manager that refuses the null handle with an exception.\<close>

definition strict_mock :: "(string, host_state) collaborators" where
  "strict_mock = \<lparr> GetInstance = (\<lambda>w. Returns mock_manager w),
            GetRegistrar = (\<lambda>this T registrar w.
              if registrar = nullptr then Throws ''null registrar'' w
              else Returns stub_registrar w),
            RegisterWithRegistrar = (\<lambda>typed w.
              Returns () (w\<lparr>registered := typed # registered w\<rparr>)) \<rparr>"

text \<open>A plugin whose registration schedules work that runs later.\<close>

definition async_mock :: "(string, host_state) collaborators" where
  "async_mock = \<lparr> GetInstance = (\<lambda>w. Returns mock_manager w),
            GetRegistrar = (\<lambda>this T registrar w. Returns stub_registrar w),
            RegisterWithRegistrar = (\<lambda>typed w.
              Returns () (w\<lparr>registered := typed # registered w,
                            pending := ''open the database'' # pending w\<rparr>)) \<rparr>"

text \<open>
  A manager object that answers only when the lookup is made on it, and a manager that
  answers only the instantiation of the lookup at the Windows registrar.
\<close>

definition one_manager_mock :: "(string, host_state) collaborators" where
  "one_manager_mock = \<lparr> GetInstance = (\<lambda>w. Returns mock_manager w),
            GetRegistrar = (\<lambda>this T registrar w.
              if this = mock_manager then Returns stub_registrar w
              else Throws ''not the manager'' w),
            RegisterWithRegistrar = (\<lambda>typed w.
              Returns () (w\<lparr>registered := typed # registered w\<rparr>)) \<rparr>"

definition windows_only_mock :: "(string, host_state) collaborators" where
  "windows_only_mock = \<lparr> GetInstance = (\<lambda>w. Returns mock_manager w),
            GetRegistrar = (\<lambda>this T registrar w.
              if T = ''flutter::PluginRegistrarWindows'' then Returns stub_registrar w
              else Throws ''not a Windows registrar'' w),
            RegisterWithRegistrar = (\<lambda>typed w.
              Returns () (w\<lparr>registered := typed # registered w\<rparr>)) \<rparr>"

section \<open>The paths through the entry point\<close>

text \<open>
  An invocation takes one of five paths, by what the accessor and the lookup do. On the
  last one the plugin's registration is called, and the invocation ends as that call
  ends.
\<close>

lemma paths [case_names accessor_diverges accessor_throws lookup_diverges lookup_throws
    registers]:
  obtains
    "GetInstance c w = Diverges"
  | e w1 where "GetInstance c w = Throws e w1"
  | manager w1 where "GetInstance c w = Returns manager w1"
      and "GetRegistrar c manager PluginRegistrarWindows registrar w1 = Diverges"
  | manager w1 e w2 where "GetInstance c w = Returns manager w1"
      and "GetRegistrar c manager PluginRegistrarWindows registrar w1 = Throws e w2"
  | manager w1 typed w2 where "GetInstance c w = Returns manager w1"
      and "GetRegistrar c manager PluginRegistrarWindows registrar w1 = Returns typed w2"
proof (cases "GetInstance c w")
  case (Returns manager w1)
  then show ?thesis
    by (cases "GetRegistrar c manager PluginRegistrarWindows registrar w1") (auto intro: that)
qed (auto intro: that)

lemmas run_path = FlutterSurrealdbEnginePluginCApiRegisterWithRegistrar_def seq_def invoke_def
  response_of_def completion_def

lemmas observed = trace_of_def outcome_of_def calls_of_def responses_of_def

lemmas doubles = mock_def strict_mock_def async_mock_def one_manager_mock_def
  windows_only_mock_def mock_manager_def stub_registrar_def fresh_def PluginRegistrarWindows_def

lemma run_registers:
  assumes "GetInstance c w = Returns manager w1"
    and "GetRegistrar c manager PluginRegistrarWindows registrar w1 = Returns typed w2"
  shows "FlutterSurrealdbEnginePluginCApiRegisterWithRegistrar c registrar w =
           ([(CallGetInstance, RetPointer manager),
             (CallGetRegistrar manager PluginRegistrarWindows registrar, RetPointer typed),
             (CallRegisterWithRegistrar typed,
              completion (RegisterWithRegistrar c typed w2))],
            RegisterWithRegistrar c typed w2)"
  using assms by (simp add: run_path)

text \<open>
  An invocation consults its callees at three points only: two sets of callees that agree
  there give the same invocation, call for call.
\<close>

lemma same_run:
  assumes "GetInstance c' w = GetInstance c w"
    and "\<And>manager w1. GetInstance c w = Returns manager w1 \<Longrightarrow>
           GetRegistrar c' manager PluginRegistrarWindows registrar w1 =
           GetRegistrar c manager PluginRegistrarWindows registrar w1"
    and "RegisterWithRegistrar c' = RegisterWithRegistrar c"
  shows "FlutterSurrealdbEnginePluginCApiRegisterWithRegistrar c' registrar w =
         FlutterSurrealdbEnginePluginCApiRegisterWithRegistrar c registrar w"
  using assms
  by (cases rule: paths [where c = c and w = w and registrar = registrar])
    (simp_all add: run_path)

section \<open>The claims\<close>

text \<open>
  C1. For a registrar handle that the manager resolves (the accessor returns the manager
  and the lookup returns a typed registrar), the entry point makes exactly one lookup,
  \<open>GetRegistrar\<close> on that same handle, and exactly one call of the plugin's
  \<open>RegisterWithRegistrar\<close>, whose argument is the result of the lookup; it does nothing
  else, and it ends the way that call ends, in the state that call leaves: the entry
  point is the composition of the two.
\<close>

theorem entry_point_is_composition:
  assumes "GetInstance c w = Returns manager w1"
    and "GetRegistrar c manager PluginRegistrarWindows registrar w1 = Returns typed w2"
  shows "calls_of c registrar w =
           [CallGetInstance,
            CallGetRegistrar manager PluginRegistrarWindows registrar,
            CallRegisterWithRegistrar typed]
         \<and> outcome_of c registrar w = RegisterWithRegistrar c typed w2"
  using run_registers [OF assms] by (simp add: observed)

theorem entry_point_is_composition_witness:
  "calls_of mock (Addr 42) fresh =
     [CallGetInstance,
      CallGetRegistrar (Addr 1) ''flutter::PluginRegistrarWindows'' (Addr 42),
      CallRegisterWithRegistrar (Addr 7)]
   \<and> outcome_of mock (Addr 42) fresh = Returns () \<lparr>registered = [Addr 7], pending = []\<rparr>"
  using entry_point_is_composition
    [of mock fresh mock_manager fresh "Addr 42" stub_registrar fresh]
  by (simp add: doubles)

text \<open>
  C2. For a valid (non-null) registrar handle that the manager resolves, with a manager
  that resolves such handles to typed registrars, the entry point ends as the plugin's
  registration applied to the typed registrar that the lookup returned, that registrar is
  not null, and no other registrar is registered with.
\<close>

theorem registered_registrar_not_null:
  assumes "resolves_to_registrar c" and "registrar \<noteq> nullptr"
    and "GetInstance c w = Returns manager w1"
    and "GetRegistrar c manager PluginRegistrarWindows registrar w1 = Returns typed w2"
  shows "typed \<noteq> nullptr
         \<and> outcome_of c registrar w = RegisterWithRegistrar c typed w2
         \<and> (\<forall>p. CallRegisterWithRegistrar p \<in> set (calls_of c registrar w) \<longleftrightarrow> p = typed)"
proof -
  from assms(1,2,4) have "typed \<noteq> nullptr"
    unfolding resolves_to_registrar_def by blast
  moreover from run_registers [OF assms(3,4)]
  have "outcome_of c registrar w = RegisterWithRegistrar c typed w2"
    and "\<forall>p. CallRegisterWithRegistrar p \<in> set (calls_of c registrar w) \<longleftrightarrow> p = typed"
    by (auto simp add: observed)
  ultimately show ?thesis by simp
qed

theorem registered_registrar_not_null_witness:
  "resolves_to_registrar mock \<and> Addr 42 \<noteq> nullptr
   \<and> GetInstance mock fresh = Returns (Addr 1) fresh
   \<and> GetRegistrar mock (Addr 1) ''flutter::PluginRegistrarWindows'' (Addr 42) fresh =
       Returns (Addr 7) fresh
   \<and> Addr 7 \<noteq> nullptr
   \<and> outcome_of mock (Addr 42) fresh = RegisterWithRegistrar mock (Addr 7) fresh
   \<and> RegisterWithRegistrar mock (Addr 7) fresh =
       Returns () \<lparr>registered = [Addr 7], pending = []\<rparr>
   \<and> RegisterWithRegistrar mock nullptr fresh \<noteq> RegisterWithRegistrar mock (Addr 7) fresh"
proof -
  have 1: "resolves_to_registrar mock"
    by (simp add: resolves_to_registrar_def doubles)
  have 2: "Addr 42 \<noteq> nullptr" by simp
  have 3: "GetInstance mock fresh = Returns (Addr 1) fresh"
    by (simp add: doubles)
  have 4: "GetRegistrar mock (Addr 1) PluginRegistrarWindows (Addr 42) fresh =
       Returns (Addr 7) fresh"
    by (simp add: doubles)
  from registered_registrar_not_null [OF 1 2 3 4] 1 2 3 4 show ?thesis
    by (simp add: doubles)
qed

text \<open>
  C3. The entry point validates nothing and has no failure of its own. Whatever the
  handle, null included, once the accessor has returned the manager the next call is the
  lookup on that manager with the handle as it came in. The entry point leaves by an
  exception exactly when one of the three callees does, and then with the same exception
  and in the state the callee left.
\<close>

theorem no_validation_failures_propagate:
  "(GetInstance c w = Returns manager w1 \<longrightarrow>
      take 2 (trace_of c registrar w) =
        [(CallGetInstance, RetPointer manager),
         (CallGetRegistrar manager PluginRegistrarWindows registrar,
          response_of RetPointer (GetRegistrar c manager PluginRegistrarWindows registrar w1))])
   \<and> (outcome_of c registrar w = Throws e w' \<longleftrightarrow>
        GetInstance c w = Throws e w'
        \<or> (\<exists>manager w1. GetInstance c w = Returns manager w1 \<and>
             (GetRegistrar c manager PluginRegistrarWindows registrar w1 = Throws e w'
              \<or> (\<exists>typed w2.
                   GetRegistrar c manager PluginRegistrarWindows registrar w1 = Returns typed w2 \<and>
                   RegisterWithRegistrar c typed w2 = Throws e w'))))"
  by (cases rule: paths [where c = c and w = w and registrar = registrar])
    (auto simp add: observed run_path)

theorem no_validation_failures_propagate_witness:
  "take 2 (trace_of strict_mock nullptr fresh) =
     [(CallGetInstance, RetPointer (Addr 1)),
      (CallGetRegistrar (Addr 1) ''flutter::PluginRegistrarWindows'' nullptr,
       Raised ''null registrar'')]
   \<and> outcome_of strict_mock nullptr fresh = Throws ''null registrar'' fresh"
  using no_validation_failures_propagate
    [of strict_mock fresh mock_manager fresh nullptr "''null registrar''" fresh]
  by (simp add: doubles response_of_def)

text \<open>
  C5. The entry point is straight-line code: an invocation makes at most three calls, one
  after the other. It fails to return only when one of the callees does not come back, so
  with callees that come back it terminates. When the plugin's registration is reached,
  that call is the last event, and the entry point ends as it ends and in the state it
  left: work that the call scheduled and that has not run is still pending when the
  caller has control again.
\<close>

theorem entry_point_returns:
  "length (trace_of c registrar w) \<le> 3
   \<and> (outcome_of c registrar w = Diverges \<longleftrightarrow>
        GetInstance c w = Diverges
        \<or> (\<exists>manager w1. GetInstance c w = Returns manager w1 \<and>
             (GetRegistrar c manager PluginRegistrarWindows registrar w1 = Diverges
              \<or> (\<exists>typed w2.
                   GetRegistrar c manager PluginRegistrarWindows registrar w1 = Returns typed w2 \<and>
                   RegisterWithRegistrar c typed w2 = Diverges))))
   \<and> (GetInstance c w = Returns manager w1 \<longrightarrow>
        GetRegistrar c manager PluginRegistrarWindows registrar w1 = Returns typed w2 \<longrightarrow>
        outcome_of c registrar w = RegisterWithRegistrar c typed w2 \<and>
        last (trace_of c registrar w) =
          (CallRegisterWithRegistrar typed, completion (RegisterWithRegistrar c typed w2)))"
  by (cases rule: paths [where c = c and w = w and registrar = registrar])
    (auto simp add: observed run_path)

theorem entry_point_returns_witness:
  "length (trace_of async_mock (Addr 42) fresh) \<le> 3
   \<and> outcome_of async_mock (Addr 42) fresh \<noteq> Diverges
   \<and> outcome_of async_mock (Addr 42) fresh =
       Returns () \<lparr>registered = [Addr 7], pending = [''open the database'']\<rparr>
   \<and> last (trace_of async_mock (Addr 42) fresh) = (CallRegisterWithRegistrar (Addr 7), RetVoid)"
  using entry_point_returns
    [of async_mock "Addr 42" fresh mock_manager fresh stub_registrar fresh]
  by (simp add: doubles completion_def response_of_def)

text \<open>
  C6. The entry point has no state of its own and leaves nothing behind: the state after
  an invocation differs from the state before it only by what the callees did. Whatever
  can be observed of the state (the heap, the containers that own a handle, the
  references that are kept) and is left as it was by the three callees is left as it was
  by the entry point.
\<close>

theorem entry_point_frame:
  assumes "preserves obs c"
    and "final_world (outcome_of c registrar w) = Some w'"
  shows "obs w' = obs w"
proof (cases rule: paths [where c = c and w = w and registrar = registrar])
  case accessor_diverges
  with assms(2) show ?thesis
    by (simp add: observed run_path final_world_def)
next
  case (accessor_throws e w1)
  with assms(2) have "final_world (GetInstance c w) = Some w'"
    by (simp add: observed run_path final_world_def)
  with assms(1) show ?thesis
    unfolding preserves_def by blast
next
  case (lookup_diverges manager w1)
  with assms(2) show ?thesis
    by (simp add: observed run_path final_world_def)
next
  case (lookup_throws manager w1 e w2)
  with assms(2) have "w2 = w'"
    by (simp add: observed run_path final_world_def)
  with lookup_throws have "final_world (GetInstance c w) = Some w1"
    and "final_world (GetRegistrar c manager PluginRegistrarWindows registrar w1) = Some w'"
    by (simp_all add: final_world_def)
  with assms(1) have "obs w1 = obs w" and "obs w' = obs w1"
    unfolding preserves_def by blast+
  then show ?thesis by simp
next
  case (registers manager w1 typed w2)
  with assms(2) have "final_world (RegisterWithRegistrar c typed w2) = Some w'"
    by (simp add: observed run_path)
  moreover from registers have "final_world (GetInstance c w) = Some w1"
    and "final_world (GetRegistrar c manager PluginRegistrarWindows registrar w1) = Some w2"
    by (simp_all add: final_world_def)
  ultimately have "obs w1 = obs w" and "obs w2 = obs w1" and "obs w' = obs w2"
    using assms(1) unfolding preserves_def by blast+
  then show ?thesis by simp
qed

theorem entry_point_frame_witness:
  "preserves pending mock
   \<and> final_world (outcome_of mock (Addr 42) \<lparr>registered = [], pending = [''sync'']\<rparr>) =
       Some \<lparr>registered = [Addr 7], pending = [''sync'']\<rparr>
   \<and> pending \<lparr>registered = [Addr 7], pending = [''sync'']\<rparr> =
       pending \<lparr>registered = [], pending = [''sync'']\<rparr>"
proof -
  have 1: "preserves pending mock"
    by (simp add: preserves_def final_world_def doubles)
  have 2: "final_world (outcome_of mock (Addr 42) \<lparr>registered = [], pending = [''sync'']\<rparr>) =
       Some \<lparr>registered = [Addr 7], pending = [''sync'']\<rparr>"
    by (simp add: observed run_path final_world_def doubles)
  from entry_point_frame [OF 1 2] 1 2 show ?thesis by simp
qed

text \<open>
  C7. The entry point makes no manager of its own: the lookup is applied to the pointer
  that \<open>GetInstance\<close> returned in the same invocation, in the state the accessor left,
  and the invocation ends as that lookup, followed by the registration, ends. The
  accessor is called once; when it does not return, nothing is looked up. What the lookup
  would do on any other manager has no bearing on the invocation. Two invocations to
  which the accessor hands the same manager both look up on that manager.
\<close>

theorem lookup_through_GetInstance:
  "(GetInstance c w = Returns manager w1 \<longrightarrow>
      outcome_of c registrar w =
        (case GetRegistrar c manager PluginRegistrarWindows registrar w1 of
           Returns typed w2 \<Rightarrow> RegisterWithRegistrar c typed w2
         | Throws e w2 \<Rightarrow> Throws e w2
         | Diverges \<Rightarrow> Diverges)
      \<and> count_list (calls_of c registrar w) CallGetInstance = 1
      \<and> (\<forall>this T r. CallGetRegistrar this T r \<in> set (calls_of c registrar w) \<longrightarrow> this = manager))
   \<and> ((\<forall>manager w1. GetInstance c w \<noteq> Returns manager w1) \<longrightarrow>
        calls_of c registrar w = [CallGetInstance])
   \<and> (GetInstance c w = Returns manager w1 \<longrightarrow>
        GetInstance c' = GetInstance c \<longrightarrow>
        RegisterWithRegistrar c' = RegisterWithRegistrar c \<longrightarrow>
        (\<forall>T r v. GetRegistrar c' manager T r v = GetRegistrar c manager T r v) \<longrightarrow>
        FlutterSurrealdbEnginePluginCApiRegisterWithRegistrar c' registrar w =
        FlutterSurrealdbEnginePluginCApiRegisterWithRegistrar c registrar w)
   \<and> (GetInstance c w = Returns manager w1 \<longrightarrow>
        GetInstance c w' = Returns manager w1' \<longrightarrow>
        outcome_of c registrar' w' =
          (case GetRegistrar c manager PluginRegistrarWindows registrar' w1' of
             Returns typed w2 \<Rightarrow> RegisterWithRegistrar c typed w2
           | Throws e w2 \<Rightarrow> Throws e w2
           | Diverges \<Rightarrow> Diverges))"
proof -
  have tie: "outcome_of c r v =
        (case GetRegistrar c manager PluginRegistrarWindows r v1 of
           Returns typed w2 \<Rightarrow> RegisterWithRegistrar c typed w2
         | Throws e w2 \<Rightarrow> Throws e w2
         | Diverges \<Rightarrow> Diverges)"
    if "GetInstance c v = Returns manager v1" for r v v1
    using that
    by (cases rule: paths [where c = c and w = v and registrar = r])
      (auto simp add: observed run_path)
  have log: "count_list (calls_of c registrar w) CallGetInstance = 1
      \<and> (\<forall>this T r. CallGetRegistrar this T r \<in> set (calls_of c registrar w) \<longrightarrow> this = manager)"
    if "GetInstance c w = Returns manager w1"
    using that
    by (cases rule: paths [where c = c and w = w and registrar = registrar])
      (auto simp add: observed run_path)
  have none: "calls_of c registrar w = [CallGetInstance]"
    if "\<forall>manager w1. GetInstance c w \<noteq> Returns manager w1"
    using that
    by (cases rule: paths [where c = c and w = w and registrar = registrar])
      (auto simp add: observed run_path)
  have same: "FlutterSurrealdbEnginePluginCApiRegisterWithRegistrar c' registrar w =
        FlutterSurrealdbEnginePluginCApiRegisterWithRegistrar c registrar w"
    if "GetInstance c w = Returns manager w1" and "GetInstance c' = GetInstance c"
      and "RegisterWithRegistrar c' = RegisterWithRegistrar c"
      and "\<forall>T r v. GetRegistrar c' manager T r v = GetRegistrar c manager T r v"
    using that by (intro same_run) auto
  from tie log none same show ?thesis by blast
qed

theorem lookup_through_GetInstance_witness:
  "GetInstance mock fresh = Returns (Addr 1) fresh
   \<and> GetInstance mock \<lparr>registered = [Addr 7], pending = []\<rparr> =
       Returns (Addr 1) \<lparr>registered = [Addr 7], pending = []\<rparr>
   \<and> outcome_of mock (Addr 42) fresh = Returns () \<lparr>registered = [Addr 7], pending = []\<rparr>
   \<and> outcome_of mock (Addr 43) \<lparr>registered = [Addr 7], pending = []\<rparr> =
       Returns () \<lparr>registered = [Addr 7, Addr 7], pending = []\<rparr>
   \<and> count_list (calls_of mock (Addr 42) fresh) CallGetInstance = 1
   \<and> GetRegistrar one_manager_mock (Addr 99) ''flutter::PluginRegistrarWindows'' (Addr 42) fresh
       \<noteq> GetRegistrar mock (Addr 99) ''flutter::PluginRegistrarWindows'' (Addr 42) fresh
   \<and> FlutterSurrealdbEnginePluginCApiRegisterWithRegistrar one_manager_mock (Addr 42) fresh =
       FlutterSurrealdbEnginePluginCApiRegisterWithRegistrar mock (Addr 42) fresh"
proof -
  have 1: "GetInstance mock fresh = Returns mock_manager fresh"
    and 2: "GetInstance mock \<lparr>registered = [Addr 7], pending = []\<rparr> =
       Returns mock_manager \<lparr>registered = [Addr 7], pending = []\<rparr>"
    and 3: "GetInstance one_manager_mock = GetInstance mock"
    and 4: "RegisterWithRegistrar one_manager_mock = RegisterWithRegistrar mock"
    and 5: "\<forall>T r v. GetRegistrar one_manager_mock mock_manager T r v =
       GetRegistrar mock mock_manager T r v"
    and 6: "GetRegistrar one_manager_mock (Addr 99) ''flutter::PluginRegistrarWindows'' (Addr 42) fresh
       \<noteq> GetRegistrar mock (Addr 99) ''flutter::PluginRegistrarWindows'' (Addr 42) fresh"
    by (simp_all add: doubles)
  from lookup_through_GetInstance
    [where c = mock and w = fresh and manager = mock_manager and ?w1.0 = fresh
      and registrar = "Addr 42" and c' = one_manager_mock
      and w' = "\<lparr>registered = [Addr 7], pending = []\<rparr>"
      and w1' = "\<lparr>registered = [Addr 7], pending = []\<rparr>" and registrar' = "Addr 43"]
    1 2 3 4 5 6
  show ?thesis by (simp add: doubles)
qed

text \<open>
  C8. The lookup that the entry point applies is the instantiation of \<open>GetRegistrar\<close> at
  \<open>flutter::PluginRegistrarWindows\<close>: the pointer handed to the plugin's registration
  is the one that this instantiation returned, and the invocation ends as the
  registration on it ends. What the lookup would do at any other registrar type has no
  bearing on the invocation.
\<close>

theorem lookup_at_PluginRegistrarWindows:
  "(GetInstance c w = Returns manager w1 \<longrightarrow>
      GetRegistrar c manager ''flutter::PluginRegistrarWindows'' registrar w1 = Returns typed w2 \<longrightarrow>
      outcome_of c registrar w = RegisterWithRegistrar c typed w2
      \<and> trace_of c registrar w ! 1 =
          (CallGetRegistrar manager ''flutter::PluginRegistrarWindows'' registrar, RetPointer typed)
      \<and> fst (last (trace_of c registrar w)) = CallRegisterWithRegistrar typed)
   \<and> (GetInstance c' = GetInstance c \<longrightarrow>
        RegisterWithRegistrar c' = RegisterWithRegistrar c \<longrightarrow>
        (\<forall>this r v. GetRegistrar c' this ''flutter::PluginRegistrarWindows'' r v =
                    GetRegistrar c this ''flutter::PluginRegistrarWindows'' r v) \<longrightarrow>
        FlutterSurrealdbEnginePluginCApiRegisterWithRegistrar c' registrar w =
        FlutterSurrealdbEnginePluginCApiRegisterWithRegistrar c registrar w)
   \<and> (\<forall>this T r. CallGetRegistrar this T r \<in> set (calls_of c registrar w) \<longrightarrow>
        T = ''flutter::PluginRegistrarWindows'')"
proof -
  have tie: "outcome_of c registrar w = RegisterWithRegistrar c typed w2
      \<and> trace_of c registrar w ! 1 =
          (CallGetRegistrar manager ''flutter::PluginRegistrarWindows'' registrar, RetPointer typed)
      \<and> fst (last (trace_of c registrar w)) = CallRegisterWithRegistrar typed"
    if "GetInstance c w = Returns manager w1"
      and "GetRegistrar c manager ''flutter::PluginRegistrarWindows'' registrar w1 = Returns typed w2"
    using run_registers [of c w manager w1 registrar typed w2] that
    by (simp add: observed PluginRegistrarWindows_def)
  have same: "FlutterSurrealdbEnginePluginCApiRegisterWithRegistrar c' registrar w =
        FlutterSurrealdbEnginePluginCApiRegisterWithRegistrar c registrar w"
    if "GetInstance c' = GetInstance c"
      and "RegisterWithRegistrar c' = RegisterWithRegistrar c"
      and "\<forall>this r v. GetRegistrar c' this ''flutter::PluginRegistrarWindows'' r v =
                    GetRegistrar c this ''flutter::PluginRegistrarWindows'' r v"
    using that by (intro same_run) (auto simp add: PluginRegistrarWindows_def)
  have log: "\<forall>this T r. CallGetRegistrar this T r \<in> set (calls_of c registrar w) \<longrightarrow>
        T = ''flutter::PluginRegistrarWindows''"
    by (cases rule: paths [where c = c and w = w and registrar = registrar])
      (auto simp add: observed run_path PluginRegistrarWindows_def)
  from tie same log show ?thesis by blast
qed

theorem lookup_at_PluginRegistrarWindows_witness:
  "GetInstance mock fresh = Returns (Addr 1) fresh
   \<and> GetRegistrar mock (Addr 1) ''flutter::PluginRegistrarWindows'' (Addr 42) fresh =
       Returns (Addr 7) fresh
   \<and> outcome_of mock (Addr 42) fresh = RegisterWithRegistrar mock (Addr 7) fresh
   \<and> trace_of mock (Addr 42) fresh ! 1 =
       (CallGetRegistrar (Addr 1) ''flutter::PluginRegistrarWindows'' (Addr 42),
        RetPointer (Addr 7))
   \<and> GetRegistrar windows_only_mock (Addr 1) ''flutter::PluginRegistrarLinux'' (Addr 42) fresh
       \<noteq> GetRegistrar mock (Addr 1) ''flutter::PluginRegistrarLinux'' (Addr 42) fresh
   \<and> FlutterSurrealdbEnginePluginCApiRegisterWithRegistrar windows_only_mock (Addr 42) fresh =
       FlutterSurrealdbEnginePluginCApiRegisterWithRegistrar mock (Addr 42) fresh"
proof -
  have 1: "GetInstance mock fresh = Returns mock_manager fresh"
    and 2: "GetRegistrar mock mock_manager ''flutter::PluginRegistrarWindows'' (Addr 42) fresh =
       Returns stub_registrar fresh"
    and 3: "GetInstance windows_only_mock = GetInstance mock"
    and 4: "RegisterWithRegistrar windows_only_mock = RegisterWithRegistrar mock"
    and 5: "\<forall>this r v. GetRegistrar windows_only_mock this ''flutter::PluginRegistrarWindows'' r v =
       GetRegistrar mock this ''flutter::PluginRegistrarWindows'' r v"
    and 6: "GetRegistrar windows_only_mock (Addr 1) ''flutter::PluginRegistrarLinux'' (Addr 42) fresh
       \<noteq> GetRegistrar mock (Addr 1) ''flutter::PluginRegistrarLinux'' (Addr 42) fresh"
    by (simp_all add: doubles)
  from lookup_at_PluginRegistrarWindows
    [where c = mock and w = fresh and manager = mock_manager and ?w1.0 = fresh
      and registrar = "Addr 42" and typed = stub_registrar and ?w2.0 = fresh
      and c' = windows_only_mock]
    1 2 3 4 5 6
  show ?thesis by (simp add: doubles)
qed

text \<open>
  C9. The entry point is deterministic, and what it does depends on nothing but the handle
  and the answers of its callees. Two invocations on the same handle whose callees answer
  alike (the same values returned, the same exceptions, the same calls that do not come
  back), be it in different states or with different implementations behind the callees,
  make the same calls with the same arguments in the same order and end alike.
\<close>

theorem entry_point_deterministic:
  assumes "responses_of c registrar w = responses_of c' registrar w'"
  shows "calls_of c registrar w = calls_of c' registrar w'
         \<and> completion (outcome_of c registrar w) = completion (outcome_of c' registrar w')"
  using assms
  by (cases rule: paths [where c = c and w = w and registrar = registrar];
      cases rule: paths [where c = c' and w = w' and registrar = registrar])
    (auto simp add: observed run_path)

theorem entry_point_deterministic_witness:
  "responses_of mock (Addr 42) fresh =
     responses_of strict_mock (Addr 42) \<lparr>registered = [Addr 3], pending = []\<rparr>
   \<and> calls_of mock (Addr 42) fresh =
       calls_of strict_mock (Addr 42) \<lparr>registered = [Addr 3], pending = []\<rparr>
   \<and> completion (outcome_of mock (Addr 42) fresh) =
       completion (outcome_of strict_mock (Addr 42) \<lparr>registered = [Addr 3], pending = []\<rparr>)
   \<and> outcome_of mock (Addr 42) fresh \<noteq>
       outcome_of strict_mock (Addr 42) \<lparr>registered = [Addr 3], pending = []\<rparr>"
proof -
  have 1: "responses_of mock (Addr 42) fresh =
     responses_of strict_mock (Addr 42) \<lparr>registered = [Addr 3], pending = []\<rparr>"
    by (simp add: observed run_path doubles)
  have 2: "outcome_of mock (Addr 42) fresh \<noteq>
       outcome_of strict_mock (Addr 42) \<lparr>registered = [Addr 3], pending = []\<rparr>"
    by (simp add: observed run_path doubles)
  from entry_point_deterministic [OF 1] 1 2 show ?thesis by simp
qed

end
